theory Spec2Isabelle
  imports Main "HOL-Library.Sublist" "HOL-Library.AList"
begin

section \<open>The workflow API of \<open>python/ray/workflow/api.py\<close>\<close>

text \<open>
  The module is a thin layer over collaborators that live in other modules
  (\<open>ray\<close>, \<open>ray.workflow.execution\<close>, \<open>workflow_access\<close>, \<open>serialization\<close>,
  \<open>workflow_storage\<close>, the event listeners).  The embedding keeps the module's own
  control flow (the initialisation flag, the \<open>isinstance\<close> tests, the \<open>try\<close>/\<open>except\<close> of
  \<open>delete\<close>, the option check) and represents every call that leaves the module by an
  entry in a log, answered by a reply function that is a parameter of the world.
\<close>

subsection \<open>Values, classes and exceptions\<close>

text \<open>
  Modelled from the spec: \<open>WorkflowStatus\<close> is declared in \<open>ray.workflow.common\<close>, which
  is not among the sources.  The specification has it as a closed enumeration of six
  states; \<open>api.py\<close> uses the members \<open>NONE\<close> and \<open>RUNNING\<close>, and the docstring of
  \<open>list_all\<close> names the string forms of the others.
\<close>

datatype WorkflowStatus = NONE | RUNNING | CANCELED | SUCCESSFUL | FAILED | RESUMABLE

text \<open>
  Modelled from the spec: the members of \<open>WorkflowStatus\<close> are instances of \<open>str\<close>, each
  with its name as its string value.  \<open>api.py\<close> relies on it: the docstring of
  \<open>get_metadata\<close> compares a status with \<open>"SUCCESSFUL"\<close> (line 297), that of \<open>list_all\<close>
  takes \<open>"RUNNING"\<close>, \<open>"FAILED"\<close>, \<open>"SUCCESSFUL"\<close>, \<open>"CANCELED"\<close> and \<open>"RESUMABLE"\<close> as the
  string forms, and the annotation of \<open>status_filter\<close> (line 117) and the message of its
  \<open>TypeError\<close> (lines 156 and 157) admit a set that holds statuses and strings.
\<close>

fun WorkflowStatus_value :: "WorkflowStatus \<Rightarrow> string" where
  "WorkflowStatus_value NONE = ''NONE''"
| "WorkflowStatus_value RUNNING = ''RUNNING''"
| "WorkflowStatus_value CANCELED = ''CANCELED''"
| "WorkflowStatus_value SUCCESSFUL = ''SUCCESSFUL''"
| "WorkflowStatus_value FAILED = ''FAILED''"
| "WorkflowStatus_value RESUMABLE = ''RESUMABLE''"

text \<open>Classes, as far as \<open>issubclass(_, EventListener)\<close> looks at them: a class is
  \<open>object\<close>, \<open>EventListener\<close>, or a named class with one base.\<close>

datatype pyclass = ObjectClass | EventListener | Subclass string pyclass

text \<open>Python values that reach the API.  A set is the list of its elements, a dict with
  string keys is an association list, a \<open>RemoteFunction\<close> object is the address at which
  its \<open>_default_options\<close> dict is stored.\<close>

datatype pyval =
    PyNone
  | PyBool bool
  | PyInt int
  | PyStr string
  | PyStatus WorkflowStatus
  | PySet "pyval list"
  | PyDict "(string \<times> pyval) list"
  | PyClass pyclass
  | PyRemoteFunction nat

text \<open>
  Exceptions.  \<open>ValueError\<close> stands for the class with its subclasses, messages are left
  out.  \<open>WorkflowRunningError\<close> carries the operation and the workflow id it is raised
  with, \<open>WorkflowNotFoundError\<close> the workflow id.  The last four names are the error
  classes that only the specification mentions; no line of \<open>api.py\<close> raises them.
\<close>

datatype exn =
    TypeError
  | ValueError
  | WorkflowRunningError string pyval
  | WorkflowNotFoundError pyval
  | OtherError string
  | InvalidOptionsError
  | InvalidWorkflowError
  | InvalidTransitionError
  | TaskExecutionError string

text \<open>
  Modelled from the spec: the classes \<open>WorkflowRunningError\<close> and
  \<open>WorkflowNotFoundError\<close> are declared in \<open>ray.workflow.common\<close>, which is not among the
  sources; the error taxonomy of the specification lists them as classes of their own,
  beside the \<open>ValueError\<close>-class error of the status query, so they are no
  \<open>ValueError\<close>.  The test is the one of \<open>except ValueError\<close> (line 374).
\<close>

fun isinstance_ValueError :: "exn \<Rightarrow> bool" where
  "isinstance_ValueError ValueError = True"
| "isinstance_ValueError _ = False"

text \<open>\<open>isinstance(_, str)\<close>: a plain string, or a member of \<open>WorkflowStatus\<close>.\<close>

fun isinstance_str :: "pyval \<Rightarrow> bool" where
  "isinstance_str (PyStr s) = True"
| "isinstance_str (PyStatus s) = True"
| "isinstance_str _ = False"

fun isinstance_WorkflowStatus :: "pyval \<Rightarrow> bool" where
  "isinstance_WorkflowStatus (PyStatus s) = True"
| "isinstance_WorkflowStatus _ = False"

text \<open>The characters of an instance of \<open>str\<close>.\<close>

fun str_value :: "pyval \<Rightarrow> string option" where
  "str_value (PyStr x) = Some x"
| "str_value (PyStatus s) = Some (WorkflowStatus_value s)"
| "str_value _ = None"

text \<open>Python's \<open>==\<close>: two instances of \<open>str\<close> are equal when their characters are,
  so a status equals its string form; other values are equal when they are the same.\<close>

definition py_eq :: "pyval \<Rightarrow> pyval \<Rightarrow> bool" where
  "py_eq a b =
     (case (str_value a, str_value b) of
        (Some x, Some y) \<Rightarrow> x = y
      | _ \<Rightarrow> a = b)"

subsection \<open>DAG nodes\<close>

text \<open>The remote functions that \<open>api.py\<close> defines (\<open>get_message\<close> and
  \<open>message_committed\<close> inside \<open>wait_for_event\<close>, \<open>end_time\<close> inside \<open>sleep\<close>, which
  closes over the duration), and any other remote function by its name.\<close>

datatype remote_function =
    get_message
  | message_committed
  | end_time pyval
  | user_function string

text \<open>\<open>f.bind(*args, **kwargs)\<close> builds a function node over its positional and keyword
  arguments, each a plain value or again a node.\<close>

datatype dag =
    Value pyval
  | FunctionNode remote_function "dag list" "(string \<times> dag) list"

subsection \<open>The world outside the module\<close>

datatype call =
    RecordLibraryUsage string
  | RayInit string
  | InitManagementActor
  | InitManager
  | ExecutionResume pyval
  | ExecutionGetOutput pyval pyval
  | ExecutionListAll pyval
  | ExecutionResumeAll pyval
  | ExecutionGetStatus pyval
  | ExecutionGetMetadata pyval pyval
  | ExecutionCancel pyval
  | GetWorkflowStorage pyval
  | DeleteWorkflow pyval
  | Instantiate pyclass
  | PollForEvent pyclass "pyval list" "(string \<times> pyval) list"
  | EventCheckpointed pyclass pyval
  | SaveTaskOutput remote_function pyval
  | RunTask remote_function "pyval list" "(string \<times> pyval) list"

text \<open>
  \<open>is_workflow_initialized\<close> is the module global \<open>_is_workflow_initialized\<close> (line 32),
  \<open>ray_initialized\<close> is what \<open>ray.is_initialized()\<close> answers, \<open>default_options\<close> holds the
  \<open>_default_options\<close> dict of the \<open>RemoteFunction\<close> object at each address, \<open>calls\<close> is
  the log of the calls that left the module, oldest first, and \<open>reply\<close> is what a
  collaborator returns or raises for a call, given the calls made before it.
\<close>

record world =
  is_workflow_initialized :: bool
  ray_initialized :: bool
  default_options :: "nat \<Rightarrow> (string \<times> pyval) list"
  calls :: "call list"
  reply :: "call list \<Rightarrow> call \<Rightarrow> exn + pyval"

text \<open>A call whose result the module uses or lets propagate.\<close>

definition perform :: "call \<Rightarrow> world \<Rightarrow> (exn + pyval) \<times> world" where
  "perform c w = (reply w (calls w) c, w\<lparr>calls := calls w @ [c]\<rparr>)"

text \<open>
  Modelled from the spec: \<open>usage_lib.record_library_usage\<close>, \<open>ray.init\<close>,
  \<open>workflow_access.init_management_actor\<close> and \<open>serialization.init_manager\<close>, the four
  initialisers that \<open>init\<close> calls, are not among the sources; the specification has the
  controller (re)creatable at any time, creating it again being no error, so a call of
  one of them returns.  \<open>init\<close> drops the result.
\<close>

definition notify :: "call \<Rightarrow> world \<Rightarrow> world" where
  "notify c w = w\<lparr>calls := calls w @ [c]\<rparr>"

subsection \<open>Initialisation (lines 32 to 58)\<close>

definition init :: "world \<Rightarrow> world" where
  "init w =
     (let w1 = notify (RecordLibraryUsage ''workflow'') w;
          w2 = (if \<not> ray_initialized w1
                then (notify (RayInit ''file:///tmp/ray/workflow_data'') w1)\<lparr>ray_initialized := True\<rparr>
                else w1);
          w3 = notify InitManagementActor w2;
          w4 = notify InitManager w3
      in w4\<lparr>is_workflow_initialized := True\<rparr>)"

definition ensure_workflow_initialized :: "world \<Rightarrow> world" where
  "ensure_workflow_initialized w =
     (if \<not> is_workflow_initialized w \<or> \<not> ray_initialized w then init w else w)"

subsection \<open>The entry points that delegate to the execution module\<close>

definition resume :: "pyval \<Rightarrow> world \<Rightarrow> (exn + pyval) \<times> world" where
  "resume workflow_id w =
     perform (ExecutionResume workflow_id) (ensure_workflow_initialized w)"

definition get_output :: "pyval \<Rightarrow> pyval \<Rightarrow> world \<Rightarrow> (exn + pyval) \<times> world" where
  "get_output workflow_id name w =
     perform (ExecutionGetOutput workflow_id name) (ensure_workflow_initialized w)"

definition resume_all :: "pyval \<Rightarrow> world \<Rightarrow> (exn + pyval) \<times> world" where
  "resume_all include_failed w =
     perform (ExecutionResumeAll include_failed) (ensure_workflow_initialized w)"

definition get_metadata :: "pyval \<Rightarrow> pyval \<Rightarrow> world \<Rightarrow> (exn + pyval) \<times> world" where
  "get_metadata workflow_id name w =
     perform (ExecutionGetMetadata workflow_id name) (ensure_workflow_initialized w)"

definition get_status :: "pyval \<Rightarrow> world \<Rightarrow> (exn + pyval) \<times> world" where
  "get_status workflow_id w =
     (let w1 = ensure_workflow_initialized w in
      if \<not> isinstance_str workflow_id then (Inl TypeError, w1)
      else perform (ExecutionGetStatus workflow_id) w1)"

definition cancel :: "pyval \<Rightarrow> world \<Rightarrow> (exn + pyval) \<times> world" where
  "cancel workflow_id w =
     (let w1 = ensure_workflow_initialized w in
      if \<not> isinstance_str workflow_id then (Inl TypeError, w1)
      else perform (ExecutionCancel workflow_id) w1)"

subsection \<open>\<open>list_all\<close> (lines 114 to 167)\<close>

text \<open>
  The call \<open>WorkflowStatus(s)\<close> of the enumeration class: a member is returned as it is,
  a value is looked up among the members' values, and Python's \<open>Enum\<close> raises
  \<open>ValueError\<close> for anything else.  The members' values are the strings that the
  docstring of \<open>list_all\<close> gives (\<open>"RUNNING"\<close>, \<open>"FAILED"\<close>, \<open>"SUCCESSFUL"\<close>,
  \<open>"CANCELED"\<close>, \<open>"RESUMABLE"\<close>), and the member's own name for \<open>NONE\<close>.
\<close>

definition WorkflowStatus_call :: "pyval \<Rightarrow> exn + pyval" where
  "WorkflowStatus_call v =
     (case v of
        PyStatus s \<Rightarrow> Inr (PyStatus s)
      | PyStr x \<Rightarrow>
          (if x = ''NONE'' then Inr (PyStatus NONE)
           else if x = ''RUNNING'' then Inr (PyStatus RUNNING)
           else if x = ''CANCELED'' then Inr (PyStatus CANCELED)
           else if x = ''SUCCESSFUL'' then Inr (PyStatus SUCCESSFUL)
           else if x = ''FAILED'' then Inr (PyStatus FAILED)
           else if x = ''RESUMABLE'' then Inr (PyStatus RESUMABLE)
           else Inl ValueError)
      | _ \<Rightarrow> Inl ValueError)"

text \<open>The set comprehension \<open>{WorkflowStatus(s) for s in status_filter}\<close>: the first
  element that is no status value ends it with the exception.\<close>

fun WorkflowStatus_each :: "pyval list \<Rightarrow> exn + pyval list" where
  "WorkflowStatus_each [] = Inr []"
| "WorkflowStatus_each (s # ss) =
     (case WorkflowStatus_call s of
        Inl e \<Rightarrow> Inl e
      | Inr t \<Rightarrow> (case WorkflowStatus_each ss of Inl e \<Rightarrow> Inl e | Inr ts \<Rightarrow> Inr (t # ts)))"

text \<open>\<open>set(WorkflowStatus)\<close>, the members in the order of their declaration.\<close>

definition all_WorkflowStatus :: "pyval list" where
  "all_WorkflowStatus =
     [PyStatus NONE, PyStatus RUNNING, PyStatus CANCELED, PyStatus SUCCESSFUL,
      PyStatus FAILED, PyStatus RESUMABLE]"

text \<open>The chain of \<open>isinstance\<close> tests of lines 147 to 166, which rebinds
  \<open>status_filter\<close> or raises.\<close>

definition normalize_status_filter :: "pyval \<Rightarrow> exn + pyval" where
  "normalize_status_filter status_filter =
     (if isinstance_str status_filter then
        (case WorkflowStatus_call status_filter of
           Inl e \<Rightarrow> Inl e
         | Inr s \<Rightarrow> Inr (PySet [s]))
      else if isinstance_WorkflowStatus status_filter then Inr (PySet [status_filter])
      else
        (case status_filter of
           PySet xs \<Rightarrow>
             (if list_all isinstance_str xs then
                (case WorkflowStatus_each xs of Inl e \<Rightarrow> Inl e | Inr ts \<Rightarrow> Inr (PySet ts))
              else if \<not> list_all isinstance_WorkflowStatus xs then Inl TypeError
              else Inr status_filter)
         | PyNone \<Rightarrow> Inr (PySet (removeAll (PyStatus NONE) all_WorkflowStatus))
         | _ \<Rightarrow> Inl TypeError))"

definition list_all_workflows :: "pyval \<Rightarrow> world \<Rightarrow> (exn + pyval) \<times> world" where
  "list_all_workflows status_filter w =
     (let w1 = ensure_workflow_initialized w in
      case normalize_status_filter status_filter of
        Inl e \<Rightarrow> (Inl e, w1)
      | Inr sf \<Rightarrow> perform (ExecutionListAll sf) w1)"

subsection \<open>\<open>delete\<close> (lines 344 to 378)\<close>

text \<open>The body of the \<open>try\<close> statement: the status query, and the
  \<open>WorkflowRunningError\<close> for a running workflow.\<close>

definition delete_try :: "pyval \<Rightarrow> world \<Rightarrow> (exn + pyval) \<times> world" where
  "delete_try workflow_id w =
     (case get_status workflow_id w of
        (Inl e, w1) \<Rightarrow> (Inl e, w1)
      | (Inr status, w1) \<Rightarrow>
          (if py_eq status (PyStatus RUNNING)
           then (Inl (WorkflowRunningError ''DELETE'' workflow_id), w1)
           else (Inr PyNone, w1)))"

definition delete :: "pyval \<Rightarrow> world \<Rightarrow> (exn + pyval) \<times> world" where
  "delete workflow_id w =
     (case delete_try workflow_id (ensure_workflow_initialized w) of
        (Inl e, w1) \<Rightarrow>
          (if isinstance_ValueError e then (Inl (WorkflowNotFoundError workflow_id), w1)
           else (Inl e, w1))
      | (Inr _, w1) \<Rightarrow>
          (case perform (GetWorkflowStorage workflow_id) w1 of
             (Inl e, w2) \<Rightarrow> (Inl e, w2)
           | (Inr wf_storage, w2) \<Rightarrow>
               (case perform (DeleteWorkflow workflow_id) w2 of
                  (Inl e, w3) \<Rightarrow> (Inl e, w3)
                | (Inr _, w3) \<Rightarrow> (Inr PyNone, w3))))"

subsection \<open>\<open>wait_for_event\<close> and \<open>sleep\<close> (lines 223 to 261)\<close>

text \<open>\<open>issubclass(c, EventListener)\<close>; Python raises \<open>TypeError\<close> when the first
  argument is no class.\<close>

fun subclass_of_EventListener :: "pyclass \<Rightarrow> bool" where
  "subclass_of_EventListener ObjectClass = False"
| "subclass_of_EventListener EventListener = True"
| "subclass_of_EventListener (Subclass n base) = subclass_of_EventListener base"

definition issubclass_EventListener :: "pyval \<Rightarrow> exn + bool" where
  "issubclass_EventListener v =
     (case v of PyClass c \<Rightarrow> Inr (subclass_of_EventListener c) | _ \<Rightarrow> Inl TypeError)"

definition wait_for_event ::
  "pyval \<Rightarrow> dag list \<Rightarrow> (string \<times> dag) list \<Rightarrow> world \<Rightarrow> (exn + dag) \<times> world" where
  "wait_for_event event_listener_type args kwargs w =
     (case issubclass_EventListener event_listener_type of
        Inl e \<Rightarrow> (Inl e, w)
      | Inr b \<Rightarrow>
          (if \<not> b then (Inl TypeError, w)
           else (Inr (FunctionNode message_committed
                        [Value event_listener_type,
                         FunctionNode get_message (Value event_listener_type # args) kwargs]
                        []), w)))"

text \<open>Modelled from the spec: \<open>TimerListener\<close> is declared in
  \<open>ray.workflow.event_listener\<close>, which is not among the sources; the specification has
  the timer as an event source, and \<open>sleep\<close> hands the class to \<open>wait_for_event\<close> as an
  event listener type.\<close>

definition TimerListener :: pyclass where
  "TimerListener = Subclass ''TimerListener'' EventListener"

definition sleep :: "pyval \<Rightarrow> world \<Rightarrow> (exn + dag) \<times> world" where
  "sleep duration w =
     wait_for_event (PyClass TimerListener) [FunctionNode (end_time duration) [] []] [] w"

subsection \<open>The class \<open>options\<close> (lines 483 to 534)\<close>

text \<open>
  The members of \<open>ray.workflow.common\<close> that \<open>options\<close> uses and that are not among
  the sources: the key \<open>WORKFLOW_OPTIONS\<close> and the check \<open>validate_user_metadata\<close>,
  which returns or raises.  Both are parameters.
\<close>

record common =
  WORKFLOW_OPTIONS :: string
  validate_user_metadata :: "pyval \<Rightarrow> exn + unit"

definition valid_options :: "string set" where
  "valid_options =
     {''name'', ''metadata'', ''catch_exceptions'', ''max_retries'', ''allow_inplace'',
      ''checkpoint''}"

text \<open>\<open>d.get(key)\<close>, which is \<open>None\<close> for a missing key.\<close>

definition dict_get :: "(string \<times> pyval) list \<Rightarrow> string \<Rightarrow> pyval" where
  "dict_get d key = (case map_of d key of None \<Rightarrow> PyNone | Some v \<Rightarrow> v)"

text \<open>\<open>d.update(other)\<close>: every item of \<open>other\<close> is stored in \<open>d\<close>, replacing the value
  of a key that \<open>d\<close> has and adding a new key at the end.\<close>

definition dict_update ::
  "(string \<times> pyval) list \<Rightarrow> (string \<times> pyval) list \<Rightarrow> (string \<times> pyval) list" where
  "dict_update d other = fold (\<lambda>(k, v). AList.update k v) other d"

text \<open>\<open>__init__\<close>: the result is the attribute \<open>self.options\<close> of the new instance.\<close>

definition options_init :: "common \<Rightarrow> (string \<times> pyval) list \<Rightarrow> exn + (string \<times> pyval) list" where
  "options_init cm workflow_options =
     (let invalid_keywords = set (map fst workflow_options) - valid_options in
      if invalid_keywords \<noteq> {} then Inl ValueError
      else
        (case validate_user_metadata cm (dict_get workflow_options ''metadata'') of
           Inl e \<Rightarrow> Inl e
         | Inr _ \<Rightarrow>
             Inr [(''_metadata'', PyDict [(WORKFLOW_OPTIONS cm, PyDict workflow_options)])]))"

text \<open>\<open>__call__\<close>: \<open>self_options\<close> is the attribute \<open>self.options\<close>.  The update is made
  in the dict of the function object, and that same object is returned.\<close>

definition options_call ::
  "(string \<times> pyval) list \<Rightarrow> pyval \<Rightarrow> world \<Rightarrow> (exn + pyval) \<times> world" where
  "options_call self_options f w =
     (case f of
        PyRemoteFunction a \<Rightarrow>
          (Inr f,
           w\<lparr>default_options :=
               (default_options w)(a := dict_update (default_options w a) self_options)\<rparr>)
      | _ \<Rightarrow> (Inl ValueError, w))"

section \<open>Running the event DAG\<close>




section \<open>The checkpoint and resume engine\<close>

text \<open>
  \<open>resume\<close> and the \<open>run\<close> of \<open>create\<close> hand their work to \<open>execution.resume\<close> and
  \<open>execution.run\<close>.  The module \<open>ray.workflow.execution\<close> is not among the sources; this
  section models the engine behind the two calls from the specification: the task
  nodes and the checkpoint records of its data model, the Task Executor, the Workflow
  Graph Walker and the \<open>run\<close> and \<open>resume\<close> of the Management Controller.
\<close>

type_synonym task_name = string

text \<open>Modelled from the spec: the output of a task.  With \<open>catch_exceptions\<close> it is a
  pair of a result and an exception, one of the two present; without, it is the plain
  result.\<close>

datatype 'v task_output = Plain 'v | ResultPair "'v option" "exn option"

text \<open>Modelled from the spec: an upstream dependency of a task node is another task
  node, named here, or a literal input.\<close>

datatype 'v upstream = Dep task_name | Literal 'v

text \<open>
  Modelled from the spec: a task node with the options that the engine reads.  The
  operation is a function of the attempt (the retries so far) and the resolved inputs:
  the same attempt on the same inputs returns or raises the same.  The options
  \<open>metadata\<close> and \<open>allow_inplace\<close> have no part in what follows and are left out.
\<close>

record 'v task_node =
  operation :: "nat \<Rightarrow> 'v task_output list \<Rightarrow> exn + 'v"
  upstream :: "'v upstream list"
  max_retries :: nat
  catch_exceptions :: bool
  checkpoint :: bool

text \<open>Modelled from the spec: the workflow graph owns its task nodes, each under its
  name, and has one designated sink node, whose output is the output of the workflow.\<close>

record 'v workflow_graph =
  nodes :: "(task_name \<times> 'v task_node) list"
  sink :: task_name

text \<open>Modelled from the spec: a node is eligible when it has no unresolved
  dependency.\<close>

fun ready :: "task_name list \<Rightarrow> 'v upstream \<Rightarrow> bool" where
  "ready resolved (Dep m) = (m \<in> set resolved)"
| "ready resolved (Literal v) = True"

text \<open>
  Modelled from the spec: the Walker resolves the dependencies topologically.  Of the
  pending nodes the first eligible one is resolved next; when nodes are pending and
  none is eligible, the graph has a cycle or a dependency that is no node, and there is
  no order.
\<close>

function topological ::
  "(task_name \<times> 'v task_node) list \<Rightarrow> task_name list \<Rightarrow> task_name list option" where
  "topological pending resolved =
     (case find (\<lambda>nt. list_all (ready resolved) (upstream (snd nt))) pending of
        None \<Rightarrow> (if pending = [] then Some resolved else None)
      | Some nt \<Rightarrow>
          topological (filter (\<lambda>mt. fst mt \<noteq> fst nt) pending) (resolved @ [fst nt]))"
  by pat_completeness auto
termination
proof (relation "measure (\<lambda>(pending, resolved). length pending)")
  show "wf (measure (\<lambda>(pending :: (task_name \<times> 'v task_node) list, resolved :: task_name list).
      length pending))"
    by simp
next
  fix pending :: "(task_name \<times> 'v task_node) list" and resolved :: "task_name list" and nt
  assume "find (\<lambda>nt. list_all (ready resolved) (upstream (snd nt))) pending = Some nt"
  then have "nt \<in> set pending"
    by (auto simp add: find_Some_iff)
  then have "length (filter (\<lambda>mt. fst mt \<noteq> fst nt) pending) < length pending"
    by (intro length_filter_less [of nt]) simp_all
  then show "((filter (\<lambda>mt. fst mt \<noteq> fst nt) pending, resolved @ [fst nt]), pending, resolved)
      \<in> measure (\<lambda>(pending, resolved). length pending)"
    by simp
qed

declare topological.simps [simp del]

text \<open>Modelled from the spec: the Walker detects a cycle when the graph is constructed
  and fails fast with \<open>InvalidWorkflowError\<close>, the error of a cyclic or malformed DAG
  (here also: two nodes under one name, or a sink that is no node).\<close>

definition plan :: "'v workflow_graph \<Rightarrow> exn + task_name list" where
  "plan g =
     (if \<not> distinct (map fst (nodes g)) \<or> sink g \<notin> set (map fst (nodes g))
      then Inl InvalidWorkflowError
      else (case topological (nodes g) [] of
              None \<Rightarrow> Inl InvalidWorkflowError
            | Some order \<Rightarrow> Inr order))"

text \<open>Modelled from the spec: the Task Executor retries a failed operation while
  retries remain, incrementing \<open>retry_count\<close>.\<close>

fun retry ::
  "(nat \<Rightarrow> 'v task_output list \<Rightarrow> exn + 'v) \<Rightarrow> 'v task_output list \<Rightarrow> nat \<Rightarrow> nat \<Rightarrow>
   (exn + 'v) \<times> nat"
where
  "retry f ins 0 retry_count = (f retry_count ins, retry_count)"
| "retry f ins (Suc left) retry_count =
     (case f retry_count ins of
        Inr v \<Rightarrow> (Inr v, retry_count)
      | Inl e \<Rightarrow> retry f ins left (Suc retry_count))"

text \<open>
  Modelled from the spec: the Task Executor, steps 2 and 4.  With \<open>catch_exceptions\<close>
  an exception of the operation becomes a normal output; without, the operation is
  retried, and when the retries are exhausted the task fails with
  \<open>TaskExecutionError\<close>.  The result is the output to commit with its \<open>retry_count\<close>.
\<close>

definition run_task ::
  "task_name \<Rightarrow> 'v task_node \<Rightarrow> 'v task_output list \<Rightarrow> exn + ('v task_output \<times> nat)" where
  "run_task n t ins =
     (if catch_exceptions t then
        (case operation t 0 ins of
           Inr v \<Rightarrow> Inr (ResultPair (Some v) None, 0)
         | Inl e \<Rightarrow> Inr (ResultPair None (Some e), 0))
      else
        (case retry (operation t) ins (max_retries t) 0 of
           (Inr v, retry_count) \<Rightarrow> Inr (Plain v, retry_count)
         | (Inl e, retry_count) \<Rightarrow> Inl (TaskExecutionError n)))"

text \<open>
  Modelled from the spec: the persisted state of one workflow, that is its status, the
  checkpoint records of its tasks (the committed output with the \<open>retry_count\<close> of its
  stats) and the final output or error once there is one.  \<open>executions\<close> is no part of
  the persisted state: it counts, over all attempts, how often the Task Executor has
  been invoked for a task.
\<close>

record 'v workflow =
  status :: WorkflowStatus
  store :: "task_name \<rightharpoonup> ('v task_output \<times> nat)"
  result :: "(exn + 'v task_output) option"
  executions :: "task_name \<Rightarrow> nat"

text \<open>Modelled from the spec: a task is fed the outputs of its upstream nodes, which
  the Walker holds in memory, and its literal inputs.\<close>

fun inputs ::
  "(task_name \<rightharpoonup> 'v task_output) \<Rightarrow> 'v upstream list \<Rightarrow> 'v task_output list option" where
  "inputs mem [] = Some []"
| "inputs mem (Literal v # us) = map_option ((#) (Plain v)) (inputs mem us)"
| "inputs mem (Dep m # us) =
     (case mem m of None \<Rightarrow> None | Some v \<Rightarrow> map_option ((#) v) (inputs mem us))"

text \<open>Modelled from the spec: the Task Executor is given a task node and its
  already resolved upstream inputs.\<close>

definition dispatch ::
  "'v workflow_graph \<Rightarrow> task_name \<Rightarrow> (task_name \<rightharpoonup> 'v task_output) \<Rightarrow>
   exn + ('v task_output \<times> nat)"
where
  "dispatch g n mem =
     (case map_of (nodes g) n of
        None \<Rightarrow> Inl InvalidWorkflowError
      | Some t \<Rightarrow>
          (case inputs mem (upstream t) of
             None \<Rightarrow> Inl InvalidWorkflowError
           | Some ins \<Rightarrow> run_task n t ins))"

text \<open>Modelled from the spec: the \<open>checkpoint\<close> flag of a node of the graph.\<close>

definition checkpointed :: "'v workflow_graph \<Rightarrow> task_name \<Rightarrow> bool" where
  "checkpointed g n = (case map_of (nodes g) n of None \<Rightarrow> False | Some t \<Rightarrow> checkpoint t)"

text \<open>
  Modelled from the spec: what the Walker does for one node.  It first asks whether a
  committed output exists; if so the node counts as executed and the recorded output
  is fed to the dependents without invoking the Executor.  Otherwise the Executor runs
  the task and, on success, persists the output when \<open>checkpoint\<close> is set, before the
  output is reported; without \<open>checkpoint\<close> the output is held in memory only.
\<close>

definition visit ::
  "'v workflow_graph \<Rightarrow> task_name \<Rightarrow> (task_name \<rightharpoonup> 'v task_output) \<Rightarrow> 'v workflow \<Rightarrow>
   (exn + 'v task_output) \<times> 'v workflow" where
  "visit g n mem st =
     (case store st n of
        Some (v, retry_count) \<Rightarrow> (Inr v, st)
      | None \<Rightarrow>
          (let st1 = st\<lparr>executions := (executions st)(n := Suc (executions st n))\<rparr> in
           case dispatch g n mem of
             Inl e \<Rightarrow> (Inl e, st1)
           | Inr (v, retry_count) \<Rightarrow>
               (Inr v,
                if checkpointed g n then st1\<lparr>store := (store st1)(n \<mapsto> (v, retry_count))\<rparr>
                else st1)))"

text \<open>
  Modelled from the spec: one walk over the nodes in their order.  A simulated crash is
  a number of nodes after which the process dies, between two nodes of the graph:
  \<open>Some k\<close> lets the Walker handle \<open>k\<close> nodes, \<open>None\<close> is a walk without a crash.  A task
  that fails ends the walk.  The memory of the Walker is returned with the outcome; of a
  crash only the workflow state survives.
\<close>

datatype outcome = Crashed | Failed exn | Completed

fun walk ::
  "'v workflow_graph \<Rightarrow> task_name list \<Rightarrow> nat option \<Rightarrow> (task_name \<rightharpoonup> 'v task_output) \<Rightarrow>
   'v workflow \<Rightarrow> outcome \<times> (task_name \<rightharpoonup> 'v task_output) \<times> 'v workflow" where
  "walk g [] crash mem st = (Completed, mem, st)"
| "walk g (n # ns) crash mem st =
     (if crash = Some 0 then (Crashed, mem, st)
      else (case visit g n mem st of
              (Inl e, st1) \<Rightarrow> (Failed e, mem, st1)
            | (Inr v, st1) \<Rightarrow> walk g ns (map_option (\<lambda>k. k - 1) crash) (mem(n \<mapsto> v)) st1))"

text \<open>
  Modelled from the spec: one attempt at a workflow.  The status becomes \<open>RUNNING\<close>
  and the Walker starts with an empty memory; the attempt ends \<open>SUCCESSFUL\<close> with the
  output of the sink, \<open>FAILED\<close> with the error of the task that failed, or, when the
  process died, \<open>RESUMABLE\<close> with the checkpoints it had committed.
\<close>

definition attempt ::
  "'v workflow_graph \<Rightarrow> nat option \<Rightarrow> 'v workflow \<Rightarrow> exn + 'v workflow" where
  "attempt g crash st =
     (case plan g of
        Inl e \<Rightarrow> Inl e
      | Inr order \<Rightarrow>
          (case walk g order crash Map.empty (st\<lparr>status := RUNNING\<rparr>) of
             (Crashed, mem, st1) \<Rightarrow> Inr (st1\<lparr>status := RESUMABLE\<rparr>)
           | (Failed e, mem, st1) \<Rightarrow> Inr (st1\<lparr>status := FAILED, result := Some (Inl e)\<rparr>)
           | (Completed, mem, st1) \<Rightarrow>
               Inr (st1\<lparr>status := SUCCESSFUL, result := map_option Inr (mem (sink g))\<rparr>)))"

text \<open>Modelled from the spec: a workflow that has never run has the status \<open>NONE\<close>
  and no checkpoint.\<close>

definition new_workflow :: "'v workflow" where
  "new_workflow = \<lparr>status = NONE, store = Map.empty, result = None, executions = (\<lambda>n. 0)\<rparr>"

text \<open>Modelled from the spec: \<open>run\<close> of the Management Controller starts a new run.\<close>

definition controller_run :: "'v workflow_graph \<Rightarrow> nat option \<Rightarrow> exn + 'v workflow" where
  "controller_run g crash = attempt g crash new_workflow"

text \<open>
  Modelled from the spec: \<open>resume\<close> of the Management Controller loads the workflow
  record; if the status is \<open>RESUMABLE\<close> or \<open>FAILED\<close> it invokes the Walker again over
  the same graph.  A complete workflow returns its result at once (the docstring of
  \<open>resume\<close> in \<open>api.py\<close>), and from any other status the transition to \<open>RUNNING\<close> is
  none of the status model.
\<close>

definition controller_resume ::
  "'v workflow_graph \<Rightarrow> nat option \<Rightarrow> 'v workflow \<Rightarrow> exn + 'v workflow" where
  "controller_resume g crash st =
     (if status st = RESUMABLE \<or> status st = FAILED then attempt g crash st
      else if status st = SUCCESSFUL then Inr st
      else Inl InvalidTransitionError)"

text \<open>\<open>resume\<close>, called again and again, each call with its own crash.\<close>

fun resume_repeatedly ::
  "'v workflow_graph \<Rightarrow> nat option list \<Rightarrow> 'v workflow \<Rightarrow> exn + 'v workflow" where
  "resume_repeatedly g [] st = Inr st"
| "resume_repeatedly g (crash # crashes) st =
     (case controller_resume g crash st of
        Inl e \<Rightarrow> Inl e
      | Inr st1 \<Rightarrow> resume_repeatedly g crashes st1)"

text \<open>
  The scenario of the specification: \<open>C\<close> depends on \<open>A\<close> and \<open>B\<close> and sums their outputs
  1 and 2.  Here \<open>B\<close> fails on its first two attempts and has two retries.
\<close>

definition scenario :: "nat workflow_graph" where
  "scenario = \<lparr>nodes =
     [(''C'', \<lparr>operation =
                (\<lambda>k ins. case ins of [Plain a, Plain b] \<Rightarrow> Inr (a + b) | _ \<Rightarrow> Inl TypeError),
              upstream = [Dep ''A'', Dep ''B''], max_retries = 0, catch_exceptions = False,
              checkpoint = True\<rparr>),
      (''A'', \<lparr>operation = (\<lambda>k ins. Inr 1), upstream = [], max_retries = 0,
              catch_exceptions = False, checkpoint = True\<rparr>),
      (''B'', \<lparr>operation = (\<lambda>k ins. if k < 2 then Inl (OtherError ''flaky'') else Inr 2),
              upstream = [Literal 7], max_retries = 2,
              catch_exceptions = False, checkpoint = True\<rparr>)],
     sink = ''C''\<rparr>"

section \<open>Notions used to state the properties\<close>

text \<open>The calls of \<open>init\<close>, and the other calls in the log of a world.\<close>

fun initialiser :: "call \<Rightarrow> bool" where
  "initialiser (RecordLibraryUsage s) = True"
| "initialiser (RayInit s) = True"
| "initialiser InitManagementActor = True"
| "initialiser InitManager = True"
| "initialiser _ = False"

definition work_calls :: "world \<Rightarrow> call list" where
  "work_calls w = filter (\<lambda>c. \<not> initialiser c) (calls w)"

text \<open>
  An entry point checks the initialisation before its work: whatever the world it is
  called in, the module and Ray are initialised afterwards, the calls of
  \<open>_ensure_workflow_initialized\<close> come first among the calls it makes, and it does what
  it would do in the world that \<open>_ensure_workflow_initialized\<close> leaves.
\<close>

definition ensures_initialized :: "(world \<Rightarrow> 'a \<times> world) \<Rightarrow> bool" where
  "ensures_initialized f =
     (\<forall>w. is_workflow_initialized (snd (f w)) \<and> ray_initialized (snd (f w)) \<and>
          prefix (calls (ensure_workflow_initialized w)) (calls (snd (f w))) \<and>
          f w = f (ensure_workflow_initialized w))"

text \<open>What \<open>execution.get_status(workflow_id)\<close> answers in a world, once the module is
  initialised.\<close>

definition status_lookup :: "pyval \<Rightarrow> world \<Rightarrow> exn + pyval" where
  "status_lookup workflow_id w =
     fst (perform (ExecutionGetStatus workflow_id) (ensure_workflow_initialized w))"




text \<open>The dependencies of a graph, as pairs of an upstream node and its dependent.\<close>

definition dependencies ::
  "(task_name \<times> 'v task_node) list \<Rightarrow> (task_name \<times> task_name) set" where
  "dependencies ns = {(m, n). \<exists>t. (n, t) \<in> set ns \<and> Dep m \<in> set (upstream t)}"

text \<open>An acyclic DAG: no two nodes share a name, the sink and every dependency are
  nodes of the graph, and no node depends on itself along any path.\<close>

definition acyclic_dag :: "'v workflow_graph \<Rightarrow> bool" where
  "acyclic_dag g =
     (distinct (map fst (nodes g)) \<and> sink g \<in> fst ` set (nodes g) \<and>
      Domain (dependencies (nodes g)) \<subseteq> fst ` set (nodes g) \<and>
      acyclic (dependencies (nodes g)))"

text \<open>The outputs that the tasks have when nothing is read from a checkpoint: each
  task in its turn is run on the outputs before it, up to the first that fails.\<close>

fun reference ::
  "'v workflow_graph \<Rightarrow> task_name list \<Rightarrow> (task_name \<rightharpoonup> 'v task_output) \<Rightarrow>
   exn option \<times> (task_name \<rightharpoonup> 'v task_output)" where
  "reference g [] mem = (None, mem)"
| "reference g (n # ns) mem =
     (case dispatch g n mem of
        Inl e \<Rightarrow> (Some e, mem)
      | Inr (v, retry_count) \<Rightarrow> reference g ns (mem(n \<mapsto> v)))"

text \<open>
  The invariant of the checkpoint store with respect to those outputs \<open>V\<close>: a committed
  output is the output of its task in \<open>V\<close>, and its task has been executed once; a task
  that has an output in \<open>V\<close> and is to be checkpointed, but is not committed, has not been
  executed.
\<close>

definition consistent ::
  "(task_name \<rightharpoonup> 'v task_output) \<Rightarrow> 'v workflow_graph \<Rightarrow> 'v workflow \<Rightarrow> bool" where
  "consistent V g st =
     (\<forall>n. (\<forall>v retry_count. store st n = Some (v, retry_count) \<longrightarrow>
               V n = Some v \<and> executions st n = 1) \<and>
          (store st n = None \<longrightarrow>
               V n = None \<or> \<not> checkpointed g n \<or> executions st n = 0))"

text \<open>The invariant of a workflow between two attempts: the store is consistent, and a
  workflow that is not resumable has the status and the result of the run without a
  crash.\<close>

definition settled ::
  "exn option \<Rightarrow> (task_name \<rightharpoonup> 'v task_output) \<Rightarrow> 'v workflow_graph \<Rightarrow> 'v workflow \<Rightarrow> bool"
where
  "settled e V g st =
     (consistent V g st \<and>
      (status st = RESUMABLE \<or>
       status st = FAILED \<and> (\<exists>x. e = Some x \<and> result st = Some (Inl x)) \<or>
       status st = SUCCESSFUL \<and> e = None \<and> result st = map_option Inr (V (sink g))))"

section \<open>Properties of the API\<close>

subsection \<open>Initialisation\<close>

lemma ensure_initialized:
  "is_workflow_initialized (ensure_workflow_initialized w) \<and>
   ray_initialized (ensure_workflow_initialized w)"
  by (simp add: ensure_workflow_initialized_def init_def notify_def Let_def)

lemma ensure_idem:
  "ensure_workflow_initialized (ensure_workflow_initialized w) = ensure_workflow_initialized w"
  using ensure_initialized [of w]
  by (simp add: ensure_workflow_initialized_def [of "ensure_workflow_initialized w"])

lemma work_calls_ensure: "work_calls (ensure_workflow_initialized w) = work_calls w"
  by (simp add: work_calls_def ensure_workflow_initialized_def init_def notify_def Let_def)

lemma perform_fields:
  "is_workflow_initialized (snd (perform c w)) = is_workflow_initialized w"
  "ray_initialized (snd (perform c w)) = ray_initialized w"
  "default_options (snd (perform c w)) = default_options w"
  "calls (snd (perform c w)) = calls w @ [c]"
  by (simp_all add: perform_def)

text \<open>
  Claim C5.  When the module and Ray are initialised, a further call of \<open>init\<close> returns
  (it has no way to raise) and leaves the initialised state as it is: both flags keep
  their value, the option dicts and the collaborators' behaviour are untouched, and
  \<open>ray.init\<close> is not called again.  What it does is to call the three initialisers
  \<open>record_library_usage\<close>, \<open>init_management_actor\<close> and \<open>init_manager\<close> once more.
\<close>

theorem init_again_is_noop:
  assumes "is_workflow_initialized w" and "ray_initialized w"
  shows "is_workflow_initialized (init w) = is_workflow_initialized w \<and>
         ray_initialized (init w) = ray_initialized w \<and>
         default_options (init w) = default_options w \<and>
         reply (init w) = reply w \<and>
         calls (init w) =
           calls w @ [RecordLibraryUsage ''workflow'', InitManagementActor, InitManager] \<and>
         ensure_workflow_initialized (init w) = init w"
  using assms by (simp add: ensure_workflow_initialized_def init_def notify_def Let_def)

theorem init_again_is_noop_witness:
  "is_workflow_initialized (init (init \<lparr>is_workflow_initialized = False,
       ray_initialized = False, default_options = (\<lambda>a. []), calls = [],
       reply = (\<lambda>cs c. Inr PyNone)\<rparr>)) \<and>
   ray_initialized (init (init \<lparr>is_workflow_initialized = False,
       ray_initialized = False, default_options = (\<lambda>a. []), calls = [],
       reply = (\<lambda>cs c. Inr PyNone)\<rparr>)) \<and>
   calls (init (init \<lparr>is_workflow_initialized = False,
       ray_initialized = False, default_options = (\<lambda>a. []), calls = [],
       reply = (\<lambda>cs c. Inr PyNone)\<rparr>)) =
     [RecordLibraryUsage ''workflow'', RayInit ''file:///tmp/ray/workflow_data'',
      InitManagementActor, InitManager,
      RecordLibraryUsage ''workflow'', InitManagementActor, InitManager]"
  using init_again_is_noop [of "init \<lparr>is_workflow_initialized = False,
       ray_initialized = False, default_options = (\<lambda>a. []), calls = [],
       reply = (\<lambda>cs c. Inr PyNone)\<rparr>"]
  by (simp add: init_def notify_def Let_def)

subsection \<open>The initialisation check of the entry points\<close>

lemma ensures_initialized_perform:
  "ensures_initialized (\<lambda>w. perform c (ensure_workflow_initialized w))"
  unfolding ensures_initialized_def
  by (simp add: perform_fields ensure_initialized ensure_idem)

lemma ensures_initialized_get_status: "ensures_initialized (get_status workflow_id)"
  unfolding ensures_initialized_def get_status_def
  by (simp add: perform_fields ensure_initialized ensure_idem Let_def)

lemma ensures_initialized_cancel: "ensures_initialized (cancel workflow_id)"
  unfolding ensures_initialized_def cancel_def
  by (simp add: perform_fields ensure_initialized ensure_idem Let_def)

lemma ensures_initialized_list_all: "ensures_initialized (list_all_workflows status_filter)"
  unfolding ensures_initialized_def list_all_workflows_def
  by (simp add: perform_fields ensure_initialized ensure_idem Let_def split: sum.split)

lemma delete_try_fields:
  "is_workflow_initialized (snd (delete_try workflow_id w)) \<and>
   ray_initialized (snd (delete_try workflow_id w)) \<and>
   prefix (calls (ensure_workflow_initialized w)) (calls (snd (delete_try workflow_id w)))"
  using ensures_initialized_get_status [of workflow_id]
  unfolding ensures_initialized_def delete_try_def
  by (auto split: prod.split sum.split dest: spec [of _ w])

lemma ensures_initialized_delete: "ensures_initialized (delete workflow_id)"
  unfolding ensures_initialized_def
proof (intro allI conjI)
  fix w
  let ?w1 = "ensure_workflow_initialized w"
  obtain r w2 where t: "delete_try workflow_id ?w1 = (r, w2)"
    by (cases "delete_try workflow_id ?w1")
  have f: "is_workflow_initialized w2" "ray_initialized w2" "prefix (calls ?w1) (calls w2)"
    using delete_try_fields [of workflow_id ?w1] t by (simp_all add: ensure_idem)
  show "is_workflow_initialized (snd (delete workflow_id w))"
    using f by (simp add: delete_def t perform_def split: sum.split prod.split)
  show "ray_initialized (snd (delete workflow_id w))"
    using f by (simp add: delete_def t perform_def split: sum.split prod.split)
  show "prefix (calls ?w1) (calls (snd (delete workflow_id w)))"
    using f by (auto simp add: delete_def t perform_def prefix_def split: sum.split prod.split)
  show "delete workflow_id w = delete workflow_id ?w1"
    by (simp add: delete_def ensure_idem)
qed

text \<open>
  Claim C6, as stated, fails: \<open>wait_for_event\<close> and \<open>sleep\<close> build a DAG and return it;
  neither calls \<open>_ensure_workflow_initialized\<close>.  Called in a process where nothing is
  initialised, they leave the module uninitialised.
\<close>

theorem wait_for_event_sleep_do_not_initialize:
  "\<not> ensures_initialized (wait_for_event (PyClass TimerListener) [] []) \<and>
   \<not> ensures_initialized (sleep (PyInt 1))"
proof -
  let ?w = "\<lparr>is_workflow_initialized = False, ray_initialized = False,
       default_options = (\<lambda>a. []), calls = [], reply = (\<lambda>cs c. Inr PyNone)\<rparr>"
  have "\<not> is_workflow_initialized (snd (wait_for_event (PyClass TimerListener) [] [] ?w))"
    by (simp add: wait_for_event_def issubclass_EventListener_def TimerListener_def)
  moreover have "\<not> is_workflow_initialized (snd (sleep (PyInt 1) ?w))"
    by (simp add: sleep_def wait_for_event_def issubclass_EventListener_def TimerListener_def)
  ultimately show ?thesis unfolding ensures_initialized_def by blast
qed

text \<open>
  Claim C6, amended.  The entry points that reach the execution module or the storage,
  \<open>resume\<close>, \<open>get_output\<close>, \<open>list_all\<close>, \<open>resume_all\<close>, \<open>get_status\<close>, \<open>get_metadata\<close>,
  \<open>cancel\<close> and \<open>delete\<close>, check the initialisation (and initialise the module when it
  is not) before their work.
\<close>

theorem entry_points_ensure_initialized:
  "ensures_initialized (resume workflow_id) \<and>
   ensures_initialized (get_output workflow_id name) \<and>
   ensures_initialized (list_all_workflows status_filter) \<and>
   ensures_initialized (resume_all include_failed) \<and>
   ensures_initialized (get_status workflow_id) \<and>
   ensures_initialized (get_metadata workflow_id name) \<and>
   ensures_initialized (cancel workflow_id) \<and>
   ensures_initialized (delete workflow_id)"
  using ensures_initialized_perform ensures_initialized_get_status ensures_initialized_cancel
    ensures_initialized_list_all ensures_initialized_delete
  unfolding resume_def get_output_def resume_all_def get_metadata_def
  by simp

theorem entry_points_ensure_initialized_witness:
  "is_workflow_initialized (snd (resume (PyStr ''trip1'')
      \<lparr>is_workflow_initialized = False, ray_initialized = False,
       default_options = (\<lambda>a. []), calls = [], reply = (\<lambda>cs c. Inr PyNone)\<rparr>)) \<and>
   ray_initialized (snd (delete (PyStr ''trip1'')
      \<lparr>is_workflow_initialized = False, ray_initialized = False,
       default_options = (\<lambda>a. []), calls = [], reply = (\<lambda>cs c. Inr PyNone)\<rparr>)) \<and>
   calls (snd (cancel (PyStr ''trip1'')
      \<lparr>is_workflow_initialized = False, ray_initialized = False,
       default_options = (\<lambda>a. []), calls = [], reply = (\<lambda>cs c. Inr PyNone)\<rparr>)) =
     [RecordLibraryUsage ''workflow'', RayInit ''file:///tmp/ray/workflow_data'',
      InitManagementActor, InitManager, ExecutionCancel (PyStr ''trip1'')]"
  using entry_points_ensure_initialized [of "PyStr ''trip1''" PyNone PyNone PyNone]
  unfolding ensures_initialized_def
  by (simp add: cancel_def perform_def ensure_workflow_initialized_def init_def notify_def
      Let_def)

subsection \<open>\<open>get_status\<close>, \<open>cancel\<close> and \<open>delete\<close>\<close>

lemma get_status_ensure:
  "get_status workflow_id (ensure_workflow_initialized w) = get_status workflow_id w"
  by (simp add: get_status_def ensure_idem)

lemma get_status_str:
  "isinstance_str workflow_id \<Longrightarrow>
   get_status workflow_id w =
     perform (ExecutionGetStatus workflow_id) (ensure_workflow_initialized w)"
  by (simp add: get_status_def)

lemma work_calls_status_query:
  "work_calls ((ensure_workflow_initialized w)
       \<lparr>calls := calls (ensure_workflow_initialized w) @ [ExecutionGetStatus workflow_id]\<rparr>) =
   work_calls w @ [ExecutionGetStatus workflow_id]"
  using work_calls_ensure [of w] by (simp add: work_calls_def)

text \<open>
  Claim C2.  When the status of a workflow id is \<open>RUNNING\<close>, \<open>delete\<close> raises
  \<open>WorkflowRunningError("DELETE", workflow_id)\<close>.  Beyond the initialisation check, the
  one call it has made is the status query: the storage of the workflow is neither
  fetched nor deleted.
\<close>

theorem delete_running_workflow:
  assumes "isinstance_str workflow_id"
    and "status_lookup workflow_id w = Inr (PyStatus RUNNING)"
  shows "fst (delete workflow_id w) = Inl (WorkflowRunningError ''DELETE'' workflow_id) \<and>
         snd (delete workflow_id w) =
           (ensure_workflow_initialized w)
             \<lparr>calls := calls (ensure_workflow_initialized w) @ [ExecutionGetStatus workflow_id]\<rparr> \<and>
         work_calls (snd (delete workflow_id w)) = work_calls w @ [ExecutionGetStatus workflow_id]"
proof -
  let ?w1 = "ensure_workflow_initialized w"
  have q: "get_status workflow_id ?w1 =
      (Inr (PyStatus RUNNING), ?w1\<lparr>calls := calls ?w1 @ [ExecutionGetStatus workflow_id]\<rparr>)"
    using assms by (simp add: get_status_str ensure_idem status_lookup_def perform_def)
  have d: "delete workflow_id w =
      (Inl (WorkflowRunningError ''DELETE'' workflow_id),
       ?w1\<lparr>calls := calls ?w1 @ [ExecutionGetStatus workflow_id]\<rparr>)"
    by (simp add: delete_def delete_try_def q py_eq_def)
  show ?thesis
    using work_calls_status_query [of w workflow_id] by (simp add: d)
qed

theorem delete_running_workflow_witness:
  "delete (PyStr ''trip1'')
     \<lparr>is_workflow_initialized = True, ray_initialized = True,
      default_options = (\<lambda>a. []), calls = [],
      reply = (\<lambda>cs c. Inr (PyStatus RUNNING))\<rparr> =
   (Inl (WorkflowRunningError ''DELETE'' (PyStr ''trip1'')),
     \<lparr>is_workflow_initialized = True, ray_initialized = True,
      default_options = (\<lambda>a. []), calls = [ExecutionGetStatus (PyStr ''trip1'')],
      reply = (\<lambda>cs c. Inr (PyStatus RUNNING))\<rparr>)"
  using delete_running_workflow [of "PyStr ''trip1''"
     "\<lparr>is_workflow_initialized = True, ray_initialized = True,
      default_options = (\<lambda>a. []), calls = [],
      reply = (\<lambda>cs c. Inr (PyStatus RUNNING))\<rparr>"]
  by (simp add: status_lookup_def perform_def ensure_workflow_initialized_def prod_eq_iff)

text \<open>
  Claim C9.  When the status query for a workflow id fails with a \<open>ValueError\<close> (no
  workflow record exists), \<open>get_status\<close> fails with that \<open>ValueError\<close> and \<open>delete\<close>
  raises \<open>WorkflowNotFoundError(workflow_id)\<close>, having made no call but the status query.
\<close>

theorem delete_unknown_workflow:
  assumes "isinstance_str workflow_id"
    and "status_lookup workflow_id w = Inl ValueError"
  shows "fst (get_status workflow_id w) = Inl ValueError \<and>
         fst (delete workflow_id w) = Inl (WorkflowNotFoundError workflow_id) \<and>
         work_calls (snd (delete workflow_id w)) = work_calls w @ [ExecutionGetStatus workflow_id]"
proof -
  let ?w1 = "ensure_workflow_initialized w"
  have q: "get_status workflow_id ?w1 =
      (Inl ValueError, ?w1\<lparr>calls := calls ?w1 @ [ExecutionGetStatus workflow_id]\<rparr>)"
    using assms by (simp add: get_status_str ensure_idem status_lookup_def perform_def)
  have g: "fst (get_status workflow_id w) = Inl ValueError"
    using q by (simp add: get_status_ensure)
  have d: "delete workflow_id w =
      (Inl (WorkflowNotFoundError workflow_id),
       ?w1\<lparr>calls := calls ?w1 @ [ExecutionGetStatus workflow_id]\<rparr>)"
    by (simp add: delete_def delete_try_def q)
  show ?thesis
    using work_calls_status_query [of w workflow_id] g by (simp add: d)
qed

theorem delete_unknown_workflow_witness:
  "fst (get_status (PyStr ''nowhere'')
     \<lparr>is_workflow_initialized = True, ray_initialized = True,
      default_options = (\<lambda>a. []), calls = [],
      reply = (\<lambda>cs c. Inl ValueError)\<rparr>) = Inl ValueError \<and>
   fst (delete (PyStr ''nowhere'')
     \<lparr>is_workflow_initialized = True, ray_initialized = True,
      default_options = (\<lambda>a. []), calls = [],
      reply = (\<lambda>cs c. Inl ValueError)\<rparr>) = Inl (WorkflowNotFoundError (PyStr ''nowhere''))"
  using delete_unknown_workflow [of "PyStr ''nowhere''"
     "\<lparr>is_workflow_initialized = True, ray_initialized = True,
      default_options = (\<lambda>a. []), calls = [],
      reply = (\<lambda>cs c. Inl ValueError)\<rparr>"]
  by (simp add: status_lookup_def perform_def ensure_workflow_initialized_def)

lemma work_calls_perform:
  "work_calls (snd (perform c (ensure_workflow_initialized w))) =
     work_calls w @ (if initialiser c then [] else [c])"
  using work_calls_ensure [of w] by (simp add: work_calls_def perform_def)

text \<open>
  Claim C10, as stated, fails: \<open>get_status\<close> and \<open>cancel\<close> test their argument after
  \<open>_ensure_workflow_initialized\<close>, not before any change of state.  Called with the
  integer 7 in a process where nothing is initialised, \<open>get_status\<close> raises \<open>TypeError\<close>
  once \<open>init\<close> has run: Ray and the module are initialised and the four initialisers have
  been called.
\<close>

theorem get_status_initializes_before_TypeError:
  "fst (get_status (PyInt 7)
     \<lparr>is_workflow_initialized = False, ray_initialized = False,
      default_options = (\<lambda>a. []), calls = [], reply = (\<lambda>cs c. Inr PyNone)\<rparr>) = Inl TypeError \<and>
   is_workflow_initialized (snd (get_status (PyInt 7)
     \<lparr>is_workflow_initialized = False, ray_initialized = False,
      default_options = (\<lambda>a. []), calls = [], reply = (\<lambda>cs c. Inr PyNone)\<rparr>)) \<and>
   ray_initialized (snd (get_status (PyInt 7)
     \<lparr>is_workflow_initialized = False, ray_initialized = False,
      default_options = (\<lambda>a. []), calls = [], reply = (\<lambda>cs c. Inr PyNone)\<rparr>)) \<and>
   calls (snd (get_status (PyInt 7)
     \<lparr>is_workflow_initialized = False, ray_initialized = False,
      default_options = (\<lambda>a. []), calls = [], reply = (\<lambda>cs c. Inr PyNone)\<rparr>)) =
     [RecordLibraryUsage ''workflow'', RayInit ''file:///tmp/ray/workflow_data'',
      InitManagementActor, InitManager] \<and>
   snd (get_status (PyInt 7)
     \<lparr>is_workflow_initialized = False, ray_initialized = False,
      default_options = (\<lambda>a. []), calls = [], reply = (\<lambda>cs c. Inr PyNone)\<rparr>) \<noteq>
     \<lparr>is_workflow_initialized = False, ray_initialized = False,
      default_options = (\<lambda>a. []), calls = [], reply = (\<lambda>cs c. Inr PyNone)\<rparr>"
  by (simp add: get_status_def ensure_workflow_initialized_def init_def notify_def Let_def)

text \<open>
  Claim C10, amended.  For an argument that is no instance of \<open>str\<close> (a member of
  \<open>WorkflowStatus\<close> is one), \<open>get_status\<close> and \<open>cancel\<close> raise \<open>TypeError\<close> after the
  initialisation check, which initialises the module and Ray when they are not, and
  before any lookup or change of a workflow: what they leave is the world of
  \<open>_ensure_workflow_initialized\<close>, and no call has reached the execution module.  For
  every argument, the one call that \<open>get_status\<close> or \<open>cancel\<close> makes beyond the
  initialisers is the call of the execution module with that argument, and it is made
  only when the argument is an instance of \<open>str\<close>.
\<close>

theorem non_string_workflow_id:
  "(\<not> isinstance_str workflow_id \<longrightarrow>
      get_status workflow_id w = (Inl TypeError, ensure_workflow_initialized w) \<and>
      cancel workflow_id w = (Inl TypeError, ensure_workflow_initialized w) \<and>
      work_calls (snd (get_status workflow_id w)) = work_calls w \<and>
      work_calls (snd (cancel workflow_id w)) = work_calls w) \<and>
   work_calls (snd (get_status workflow_id w)) =
     work_calls w @ (if isinstance_str workflow_id then [ExecutionGetStatus workflow_id] else []) \<and>
   work_calls (snd (cancel workflow_id w)) =
     work_calls w @ (if isinstance_str workflow_id then [ExecutionCancel workflow_id] else []) \<and>
   isinstance_str (PyStr x) \<and> isinstance_str (PyStatus s) \<and>
   \<not> isinstance_str PyNone \<and> \<not> isinstance_str (PyBool b) \<and> \<not> isinstance_str (PyInt i) \<and>
   \<not> isinstance_str (PySet xs) \<and> \<not> isinstance_str (PyDict d) \<and>
   \<not> isinstance_str (PyClass c) \<and> \<not> isinstance_str (PyRemoteFunction a)"
  by (simp add: get_status_def cancel_def work_calls_ensure work_calls_perform Let_def)

theorem non_string_workflow_id_witness:
  "get_status (PyInt 7)
     \<lparr>is_workflow_initialized = True, ray_initialized = True,
      default_options = (\<lambda>a. []), calls = [], reply = (\<lambda>cs c. Inr PyNone)\<rparr> =
     (Inl TypeError,
      \<lparr>is_workflow_initialized = True, ray_initialized = True,
       default_options = (\<lambda>a. []), calls = [], reply = (\<lambda>cs c. Inr PyNone)\<rparr>) \<and>
   fst (cancel PyNone
     \<lparr>is_workflow_initialized = False, ray_initialized = False,
      default_options = (\<lambda>a. []), calls = [], reply = (\<lambda>cs c. Inr PyNone)\<rparr>) = Inl TypeError \<and>
   work_calls (snd (cancel PyNone
     \<lparr>is_workflow_initialized = False, ray_initialized = False,
      default_options = (\<lambda>a. []), calls = [], reply = (\<lambda>cs c. Inr PyNone)\<rparr>)) = [] \<and>
   work_calls (snd (cancel (PyStatus FAILED)
     \<lparr>is_workflow_initialized = False, ray_initialized = False,
      default_options = (\<lambda>a. []), calls = [], reply = (\<lambda>cs c. Inr PyNone)\<rparr>)) =
     [ExecutionCancel (PyStatus FAILED)]"
  using non_string_workflow_id [of "PyInt 7"
     "\<lparr>is_workflow_initialized = True, ray_initialized = True,
      default_options = (\<lambda>a. []), calls = [], reply = (\<lambda>cs c. Inr PyNone)\<rparr>"]
    non_string_workflow_id [of PyNone
     "\<lparr>is_workflow_initialized = False, ray_initialized = False,
      default_options = (\<lambda>a. []), calls = [], reply = (\<lambda>cs c. Inr PyNone)\<rparr>"]
    non_string_workflow_id [of "PyStatus FAILED"
     "\<lparr>is_workflow_initialized = False, ray_initialized = False,
      default_options = (\<lambda>a. []), calls = [], reply = (\<lambda>cs c. Inr PyNone)\<rparr>"]
  by (simp add: work_calls_def ensure_workflow_initialized_def init_def notify_def Let_def)

subsection \<open>The status filter of \<open>list_all\<close>\<close>
















subsection \<open>The class \<open>options\<close>\<close>

lemma dict_update_single: "dict_update d [(k, v)] = AList.update k v d"
  by (simp add: dict_update_def)

text \<open>
  Claim C7, as stated, fails: for a keyword outside the valid set \<open>__init__\<close> raises
  \<open>ValueError\<close>, not \<open>InvalidOptionsError\<close>.
\<close>

theorem options_invalid_keyword_is_ValueError:
  "options_init
     \<lparr>WORKFLOW_OPTIONS = ''workflow.io/options'', validate_user_metadata = (\<lambda>m. Inr ())\<rparr>
     [(''retries'', PyInt 3)] = Inl ValueError \<and>
   options_init
     \<lparr>WORKFLOW_OPTIONS = ''workflow.io/options'', validate_user_metadata = (\<lambda>m. Inr ())\<rparr>
     [(''retries'', PyInt 3)] \<noteq> Inl InvalidOptionsError"
  by (simp add: options_init_def valid_options_def)

text \<open>
  Claim C7, amended.  With a keyword outside the valid set, \<open>options(...)\<close> fails with
  \<open>ValueError\<close>, whatever the other arguments.  With valid keywords only, it fails with
  the error of \<open>validate_user_metadata\<close> when that rejects the \<open>metadata\<close> argument, and
  otherwise succeeds with \<open>{"_metadata": {WORKFLOW_OPTIONS: workflow_options}}\<close>.
\<close>

theorem options_keywords:
  "(\<not> set (map fst workflow_options) \<subseteq> valid_options \<longrightarrow>
      options_init cm workflow_options = Inl ValueError) \<and>
   (set (map fst workflow_options) \<subseteq> valid_options \<longrightarrow>
      options_init cm workflow_options =
        (case validate_user_metadata cm (dict_get workflow_options ''metadata'') of
           Inl e \<Rightarrow> Inl e
         | Inr u \<Rightarrow>
             Inr [(''_metadata'', PyDict [(WORKFLOW_OPTIONS cm, PyDict workflow_options)])]))"
  by (auto simp add: options_init_def Let_def split: sum.split)

theorem options_keywords_witness:
  "options_init
     \<lparr>WORKFLOW_OPTIONS = ''workflow.io/options'', validate_user_metadata = (\<lambda>m. Inr ())\<rparr>
     [(''name'', PyStr ''trip''), (''undo'', PyBool True)] = Inl ValueError \<and>
   options_init
     \<lparr>WORKFLOW_OPTIONS = ''workflow.io/options'', validate_user_metadata = (\<lambda>m. Inr ())\<rparr>
     [(''name'', PyStr ''trip''), (''max_retries'', PyInt 2)] =
     Inr [(''_metadata'', PyDict [(''workflow.io/options'',
            PyDict [(''name'', PyStr ''trip''), (''max_retries'', PyInt 2)])])]"
  using options_keywords [of "[(''name'', PyStr ''trip''), (''undo'', PyBool True)]"
      "\<lparr>WORKFLOW_OPTIONS = ''workflow.io/options'', validate_user_metadata = (\<lambda>m. Inr ())\<rparr>"]
    options_keywords [of "[(''name'', PyStr ''trip''), (''max_retries'', PyInt 2)]"
      "\<lparr>WORKFLOW_OPTIONS = ''workflow.io/options'', validate_user_metadata = (\<lambda>m. Inr ())\<rparr>"]
  by (simp add: valid_options_def)

text \<open>
  Claim C8, as stated, fails: applied to a remote function, an \<open>options\<close> instance
  changes the function object itself.  The \<open>_default_options\<close> dict of the function at
  address 0 is empty before the call and holds the entry \<open>"_metadata"\<close> after it.
\<close>

theorem options_call_mutates_function:
  "default_options
     (snd (options_call
        [(''_metadata'', PyDict [(''workflow.io/options'', PyDict [(''name'', PyStr ''trip'')])])]
        (PyRemoteFunction 0)
        \<lparr>is_workflow_initialized = False, ray_initialized = False,
         default_options = (\<lambda>a. []), calls = [], reply = (\<lambda>cs c. Inr PyNone)\<rparr>)) 0 \<noteq>
   default_options
        \<lparr>is_workflow_initialized = False, ray_initialized = False,
         default_options = (\<lambda>a. []), calls = [], reply = (\<lambda>cs c. Inr PyNone)\<rparr> 0"
  by (simp add: options_call_def dict_update_def)

text \<open>
  Claim C8, amended.  Applied to a remote function, an \<open>options\<close> instance updates the
  \<open>_default_options\<close> dict of that function in place with its own items and returns the
  same function; the dicts of all other functions stay as they are, and after the update
  with the item \<open>"_metadata"\<close> the dict maps \<open>"_metadata"\<close> to the new value and every other
  key to what it held.  Applied to anything that is no remote function, it raises
  \<open>ValueError\<close> and changes nothing.
\<close>

theorem options_call_updates_in_place:
  "options_call self_options (PyRemoteFunction a) w =
      (Inr (PyRemoteFunction a),
       w\<lparr>default_options :=
           (default_options w)(a := dict_update (default_options w a) self_options)\<rparr>) \<and>
   (\<forall>b. b \<noteq> a \<longrightarrow>
      default_options (snd (options_call self_options (PyRemoteFunction a) w)) b =
        default_options w b) \<and>
   map_of (default_options (snd (options_call [(''_metadata'', m)] (PyRemoteFunction a) w)) a) =
     (map_of (default_options w a))(''_metadata'' \<mapsto> m) \<and>
   ((\<forall>a. f \<noteq> PyRemoteFunction a) \<longrightarrow> options_call self_options f w = (Inl ValueError, w))"
  by (auto simp add: options_call_def dict_update_single update_conv' split: pyval.split)

theorem options_call_updates_in_place_witness:
  "default_options
     (snd (options_call [(''_metadata'', PyDict [])] (PyRemoteFunction 1)
        \<lparr>is_workflow_initialized = False, ray_initialized = False,
         default_options = (\<lambda>a. [(''num_cpus'', PyInt 2)]), calls = [],
         reply = (\<lambda>cs c. Inr PyNone)\<rparr>)) 1 =
     [(''num_cpus'', PyInt 2), (''_metadata'', PyDict [])] \<and>
   default_options
     (snd (options_call [(''_metadata'', PyDict [])] (PyRemoteFunction 1)
        \<lparr>is_workflow_initialized = False, ray_initialized = False,
         default_options = (\<lambda>a. [(''num_cpus'', PyInt 2)]), calls = [],
         reply = (\<lambda>cs c. Inr PyNone)\<rparr>)) 0 = [(''num_cpus'', PyInt 2)] \<and>
   fst (options_call [(''_metadata'', PyDict [])] (PyStr ''f'')
        \<lparr>is_workflow_initialized = False, ray_initialized = False,
         default_options = (\<lambda>a. [(''num_cpus'', PyInt 2)]), calls = [],
         reply = (\<lambda>cs c. Inr PyNone)\<rparr>) = Inl ValueError"
  using options_call_updates_in_place [of "[(''_metadata'', PyDict [])]" 1
        "\<lparr>is_workflow_initialized = False, ray_initialized = False,
         default_options = (\<lambda>a. [(''num_cpus'', PyInt 2)]), calls = [],
         reply = (\<lambda>cs c. Inr PyNone)\<rparr>" "PyDict []" "PyStr ''f''"]
  by (simp add: dict_update_single)

subsection \<open>The DAG of \<open>wait_for_event\<close>\<close>






section \<open>Properties of the checkpoint and resume engine\<close>

subsection \<open>A walk with checkpoints follows the run without them\<close>

lemma reference_frame:
  "reference g ns mem = (e, V) \<Longrightarrow> n \<notin> set ns \<Longrightarrow> V n = mem n"
  by (induction ns arbitrary: mem) (auto split: sum.splits prod.splits)

lemma consistent_committed:
  "consistent V g st \<Longrightarrow> store st n = Some (v, k) \<Longrightarrow> V n = Some v \<and> executions st n = 1"
  unfolding consistent_def by (auto dest: spec [of _ n])

lemma visit_committed:
  "store st n = Some (v, k) \<Longrightarrow> visit g n mem st = (Inr v, st)"
  by (simp add: visit_def)

lemma visit_failed:
  assumes "store st n = None" and "dispatch g n mem = Inl x"
    and "consistent V g st" and "V n = None"
  shows "\<exists>st1. visit g n mem st = (Inl x, st1) \<and> consistent V g st1 \<and>
           status st1 = status st \<and> result st1 = result st"
  using assms unfolding consistent_def visit_def
  by (auto simp add: Let_def split: option.splits prod.splits)

lemma visit_executed:
  assumes "store st n = None" and "dispatch g n mem = Inr (v, k)"
    and "consistent V g st" and "V n = Some v"
  shows "\<exists>st1. visit g n mem st = (Inr v, st1) \<and> consistent V g st1 \<and>
           status st1 = status st \<and> result st1 = result st"
proof (cases "checkpointed g n")
  case True
  with assms have z: "executions st n = 0"
    unfolding consistent_def by (auto dest: spec [of _ n])
  have "consistent V g
      (st\<lparr>executions := (executions st)(n := Suc 0), store := (store st)(n \<mapsto> (v, k))\<rparr>)"
    using assms(3,4) unfolding consistent_def by (auto split: option.splits)
  with True assms(1,2) z show ?thesis by (simp add: visit_def)
next
  case False
  have "consistent V g (st\<lparr>executions := (executions st)(n := Suc (executions st n))\<rparr>)"
    using assms(1,3) False unfolding consistent_def by (auto split: option.splits)
  with False assms(1,2) show ?thesis by (simp add: visit_def)
qed

lemma walk_follows_reference:
  assumes "reference g ns mem = (e, V)" and "distinct ns" and "set ns \<inter> dom mem = {}"
    and "consistent V g st"
  shows "\<exists>out mem1 st1. walk g ns crash mem st = (out, mem1, st1) \<and>
           consistent V g st1 \<and> status st1 = status st \<and> result st1 = result st \<and>
           (out = Crashed \<and> crash \<noteq> None \<or>
            out = Completed \<and> e = None \<and> mem1 = V \<or>
            (\<exists>x. out = Failed x \<and> e = Some x))"
  using assms
proof (induction ns arbitrary: crash mem st)
  case Nil
  then show ?case by simp
next
  case (Cons n ns)
  show ?case
  proof (cases "crash = Some 0")
    case True
    with Cons.prems show ?thesis by simp
  next
    case False
    from Cons.prems have n: "mem n = None" "n \<notin> set ns" "distinct ns" by auto
    show ?thesis
    proof (cases "dispatch g n mem")
      case (Inl x)
      with Cons.prems have eV: "e = Some x" "V = mem" by simp_all
      have "store st n = None"
      proof (cases "store st n")
        case (Some vk)
        then obtain v k where "store st n = Some (v, k)" by (cases vk) simp
        with consistent_committed [OF Cons.prems(4)] eV n show ?thesis by simp
      qed simp
      from visit_failed [OF this Inl Cons.prems(4)] eV n
      obtain st1 where "visit g n mem st = (Inl x, st1)" "consistent V g st1"
        "status st1 = status st" "result st1 = result st" by auto
      with False eV show ?thesis by simp
    next
      case (Inr vk)
      obtain v k where vk: "vk = (v, k)" by (cases vk)
      with Inr Cons.prems have r: "reference g ns (mem(n \<mapsto> v)) = (e, V)" by simp
      from reference_frame [OF r n(2)] have Vn: "V n = Some v" by simp
      have d: "set ns \<inter> dom (mem(n \<mapsto> v)) = {}"
        using Cons.prems(3) n by auto
      have "\<exists>st1. visit g n mem st = (Inr v, st1) \<and> consistent V g st1 \<and>
           status st1 = status st \<and> result st1 = result st"
      proof (cases "store st n")
        case None
        from visit_executed [OF None _ Cons.prems(4) Vn] Inr vk show ?thesis by simp
      next
        case (Some wk)
        then obtain w j where s: "store st n = Some (w, j)" by (cases wk) simp
        with consistent_committed [OF Cons.prems(4) s] Vn have "w = v" by simp
        with s visit_committed [OF s] Cons.prems(4) show ?thesis by simp
      qed
      then obtain st1 where v1: "visit g n mem st = (Inr v, st1)" "consistent V g st1"
        "status st1 = status st" "result st1 = result st" by auto
      from Cons.IH [OF r n(3) d v1(2), of "map_option (\<lambda>k. k - 1) crash"]
      obtain out mem2 st2 where
        w: "walk g ns (map_option (\<lambda>k. k - 1) crash) (mem(n \<mapsto> v)) st1 = (out, mem2, st2)"
        and c: "consistent V g st2" "status st2 = status st1" "result st2 = result st1"
        and o: "out = Crashed \<and> map_option (\<lambda>k. k - 1) crash \<noteq> None \<or>
            out = Completed \<and> e = None \<and> mem2 = V \<or> (\<exists>x. out = Failed x \<and> e = Some x)"
        by blast
      have "walk g (n # ns) crash mem st = (out, mem2, st2)"
        using False v1(1) w by simp
      moreover from o have "out = Crashed \<and> crash \<noteq> None \<or>
            out = Completed \<and> e = None \<and> mem2 = V \<or> (\<exists>x. out = Failed x \<and> e = Some x)"
        by auto
      ultimately show ?thesis using c v1(3,4) by simp
    qed
  qed
qed


lemma topological_distinct:
  "topological pending resolved = Some order \<Longrightarrow> distinct resolved \<Longrightarrow>
   set resolved \<inter> fst ` set pending = {} \<Longrightarrow> distinct order"
proof (induction pending resolved rule: topological.induct)
  case (1 pending resolved)
  show ?case
  proof (cases "find (\<lambda>nt. list_all (ready resolved) (upstream (snd nt))) pending")
    case None
    with "1.prems" show ?thesis
      by (simp add: topological.simps [of pending resolved] split: if_splits)
  next
    case (Some nt)
    then have m: "nt \<in> set pending" by (auto simp add: find_Some_iff)
    from Some "1.prems"(1) have t: "topological (filter (\<lambda>mt. fst mt \<noteq> fst nt) pending)
        (resolved @ [fst nt]) = Some order"
      by (simp add: topological.simps [of pending resolved])
    have "distinct (resolved @ [fst nt])"
      using "1.prems"(2,3) m by auto
    moreover have "set (resolved @ [fst nt]) \<inter>
        fst ` set (filter (\<lambda>mt. fst mt \<noteq> fst nt) pending) = {}"
      using "1.prems"(3) by auto
    ultimately show ?thesis
      using "1.IH" [OF Some t] by simp
  qed
qed

lemma ready_upstream:
  "list_all (ready resolved) us \<longleftrightarrow> (\<forall>m. Dep m \<in> set us \<longrightarrow> m \<in> set resolved)"
proof (induction us)
  case Nil
  then show ?case by simp
next
  case (Cons u us)
  then show ?case by (cases u) auto
qed

lemma some_task_ready:
  assumes "pending \<noteq> []"
    and "Domain (dependencies pending) \<subseteq> set resolved \<union> fst ` set pending"
    and "acyclic (dependencies pending)"
  shows "\<exists>nt \<in> set pending. list_all (ready resolved) (upstream (snd nt))"
proof -
  let ?N = "fst ` set pending"
  let ?R = "dependencies pending \<inter> (?N \<times> ?N)"
  have "finite ?R" by simp
  moreover have "acyclic ?R"
    using assms(3) by (rule acyclic_subset) simp
  ultimately have "wf ?R" by (rule finite_acyclic_wf)
  moreover from assms(1) obtain x where "x \<in> ?N" by (cases pending) auto
  ultimately obtain z where z: "z \<in> ?N" "\<And>y. (y, z) \<in> ?R \<Longrightarrow> y \<notin> ?N"
    unfolding wf_eq_minimal by blast
  from z(1) obtain t where t: "(z, t) \<in> set pending" by auto
  have "m \<in> set resolved" if "Dep m \<in> set (upstream t)" for m
  proof -
    from that t have d: "(m, z) \<in> dependencies pending"
      unfolding dependencies_def by auto
    with assms(2) have c: "m \<in> set resolved \<or> m \<in> ?N" by auto
    show ?thesis
    proof (rule ccontr)
      assume "m \<notin> set resolved"
      with c have n: "m \<in> ?N" by simp
      with d z(1) have "(m, z) \<in> ?R" by simp
      from z(2) [OF this] n show False by simp
    qed
  qed
  then have "list_all (ready resolved) (upstream (snd (z, t)))"
    by (simp add: ready_upstream)
  with t show ?thesis by blast
qed

lemma dependencies_filter:
  "dependencies (filter P ns) \<subseteq> dependencies ns"
  unfolding dependencies_def by auto

lemma topological_complete:
  "Domain (dependencies pending) \<subseteq> set resolved \<union> fst ` set pending \<Longrightarrow>
   acyclic (dependencies pending) \<Longrightarrow> \<exists>order. topological pending resolved = Some order"
proof (induction pending resolved rule: topological.induct)
  case (1 pending resolved)
  show ?case
  proof (cases "find (\<lambda>nt. list_all (ready resolved) (upstream (snd nt))) pending")
    case None
    have "pending = []"
    proof (rule ccontr)
      assume "pending \<noteq> []"
      from some_task_ready [OF this "1.prems"] None show False
        by (auto simp add: find_None_iff)
    qed
    with None show ?thesis by (simp add: topological.simps [of "[]" resolved])
  next
    case (Some nt)
    let ?rest = "filter (\<lambda>mt. fst mt \<noteq> fst nt) pending"
    have "Domain (dependencies ?rest) \<subseteq> set (resolved @ [fst nt]) \<union> fst ` set ?rest"
    proof
      fix m assume "m \<in> Domain (dependencies ?rest)"
      with dependencies_filter [of _ pending] have "m \<in> Domain (dependencies pending)"
        by blast
      with "1.prems"(1) have "m \<in> set resolved \<or> m \<in> fst ` set pending" by auto
      then show "m \<in> set (resolved @ [fst nt]) \<union> fst ` set ?rest"
        by (cases "m = fst nt") auto
    qed
    moreover have "acyclic (dependencies ?rest)"
      using "1.prems"(2) dependencies_filter by (rule acyclic_subset)
    ultimately obtain order where "topological ?rest (resolved @ [fst nt]) = Some order"
      using "1.IH" [OF Some] by blast
    with Some show ?thesis by (simp add: topological.simps [of pending resolved])
  qed
qed

lemma acyclic_dag_plan:
  assumes "acyclic_dag g"
  shows "\<exists>order. plan g = Inr order \<and> distinct order"
proof -
  from assms have "\<exists>order. topological (nodes g) [] = Some order"
    unfolding acyclic_dag_def by (intro topological_complete) auto
  then obtain order where o: "topological (nodes g) [] = Some order" ..
  from topological_distinct [OF o] have "distinct order" by simp
  with o assms show ?thesis
    unfolding acyclic_dag_def plan_def by simp
qed


lemma consistent_update [simp]:
  "consistent V g (st\<lparr>status := s\<rparr>) = consistent V g st"
  "consistent V g (st\<lparr>result := r\<rparr>) = consistent V g st"
  by (simp_all add: consistent_def)

lemma consistent_new: "consistent V g new_workflow"
  by (simp add: consistent_def new_workflow_def)

lemma attempt_settles:
  assumes "plan g = Inr order" and "distinct order"
    and "reference g order Map.empty = (e, V)" and "consistent V g st"
  shows "\<exists>st1. attempt g crash st = Inr st1 \<and> settled e V g st1 \<and>
           (crash = None \<longrightarrow> status st1 \<noteq> RESUMABLE)"
proof -
  have "consistent V g (st\<lparr>status := RUNNING\<rparr>)"
    using assms(4) by simp
  from walk_follows_reference [OF assms(3) assms(2) _ this, of crash]
  obtain out mem1 st1 where
    w: "walk g order crash Map.empty (st\<lparr>status := RUNNING\<rparr>) = (out, mem1, st1)"
    and c: "consistent V g st1"
    and o: "out = Crashed \<and> crash \<noteq> None \<or> out = Completed \<and> e = None \<and> mem1 = V \<or>
            (\<exists>x. out = Failed x \<and> e = Some x)"
    by auto
  from o show ?thesis
  proof (elim disjE conjE exE)
    assume "out = Crashed" "crash \<noteq> None"
    with w c assms(1) show ?thesis by (simp add: attempt_def settled_def)
  next
    assume "out = Completed" "e = None" "mem1 = V"
    with w c assms(1) show ?thesis by (simp add: attempt_def settled_def)
  next
    fix x assume "out = Failed x" "e = Some x"
    with w c assms(1) show ?thesis by (simp add: attempt_def settled_def)
  qed
qed

lemma resume_settles:
  assumes "plan g = Inr order" and "distinct order"
    and "reference g order Map.empty = (e, V)" and "settled e V g st"
  shows "\<exists>st1. controller_resume g crash st = Inr st1 \<and> settled e V g st1 \<and>
           (crash = None \<longrightarrow> status st1 \<noteq> RESUMABLE)"
proof (cases "status st = RESUMABLE \<or> status st = FAILED")
  case True
  from assms(4) have "consistent V g st" by (simp add: settled_def)
  from attempt_settles [OF assms(1-3) this, of crash] True show ?thesis
    by (simp add: controller_resume_def)
next
  case False
  with assms(4) have "status st = SUCCESSFUL" by (auto simp add: settled_def)
  with assms(4) show ?thesis by (simp add: controller_resume_def)
qed

lemma resume_repeatedly_settles:
  assumes "plan g = Inr order" and "distinct order"
    and "reference g order Map.empty = (e, V)" and "settled e V g st"
  shows "\<exists>st1. resume_repeatedly g crashes st = Inr st1 \<and> settled e V g st1 \<and>
           (crashes \<noteq> [] \<and> last crashes = None \<longrightarrow> status st1 \<noteq> RESUMABLE)"
  using assms(4)
proof (induction crashes arbitrary: st)
  case Nil
  then show ?case by simp
next
  case (Cons crash crashes)
  from resume_settles [OF assms(1-3) Cons.prems, of crash]
  obtain st1 where r: "controller_resume g crash st = Inr st1" "settled e V g st1"
    "crash = None \<longrightarrow> status st1 \<noteq> RESUMABLE" by blast
  from Cons.IH [OF r(2)] obtain st2 where
    s: "resume_repeatedly g crashes st1 = Inr st2" "settled e V g st2"
    "crashes \<noteq> [] \<and> last crashes = None \<longrightarrow> status st2 \<noteq> RESUMABLE" by blast
  show ?case
  proof (cases crashes)
    case Nil
    with r show ?thesis by simp
  next
    case (Cons c cs)
    with r s show ?thesis by simp
  qed
qed

lemma settled_final:
  assumes "settled e V g st" and "settled e V g u"
    and "status st \<noteq> RESUMABLE" and "status u \<noteq> RESUMABLE"
  shows "status st = status u \<and> result st = result u"
  using assms by (auto simp add: settled_def)

lemma settled_once:
  "settled e V g st \<Longrightarrow> store st n \<noteq> None \<Longrightarrow> executions st n = 1"
  using consistent_committed [of V g st n] by (auto simp add: settled_def)


subsection \<open>The scenario\<close>

lemma dependencies_Nil: "dependencies [] = {}"
  by (simp add: dependencies_def)

lemma dependencies_Cons:
  "dependencies ((n, t) # ns) = (\<lambda>m. (m, n)) ` {m. Dep m \<in> set (upstream t)} \<union> dependencies ns"
  unfolding dependencies_def by auto

lemma dependencies_scenario:
  "dependencies (nodes scenario) = {(''A'', ''C''), (''B'', ''C'')}"
proof -
  have "{m. Dep m \<in> set [Dep ''A'', Dep ''B'' :: nat upstream]} = {''A'', ''B''}"
    and "{m. Dep m \<in> set [Literal 7 :: nat upstream]} = {}"
    and "{m. Dep m \<in> set ([] :: nat upstream list)} = {}"
    by auto
  then show ?thesis
    by (simp add: scenario_def dependencies_Cons dependencies_Nil)
qed

lemma acyclic_dag_scenario: "acyclic_dag scenario"
proof -
  have "acyclic ({} :: (string \<times> string) set)"
    by (rule wf_acyclic) simp
  then have "acyclic {(''A'', ''C''), (''B'', ''C'')}"
    by (simp add: rtrancl_insert)
  moreover have "map fst (nodes scenario) = [''C'', ''A'', ''B'']" "sink scenario = ''C''"
    by (simp_all add: scenario_def)
  ultimately show ?thesis
    unfolding acyclic_dag_def dependencies_scenario by (simp flip: set_map)
qed

lemma plan_scenario: "plan scenario = Inr [''A'', ''B'', ''C'']"
  by (simp add: plan_def scenario_def topological.simps)


lemma dispatch_scenario:
  "dispatch scenario ''A'' mem = Inr (Plain 1, 0)"
  "dispatch scenario ''B'' mem = Inr (Plain 2, 2)"
  "mem ''A'' = Some (Plain a) \<Longrightarrow> mem ''B'' = Some (Plain b) \<Longrightarrow>
     dispatch scenario ''C'' mem = Inr (Plain (a + b), 0)"
  by (simp_all add: dispatch_def scenario_def run_task_def numeral_2_eq_2)

lemma checkpointed_scenario:
  "checkpointed scenario ''A''" "checkpointed scenario ''B''" "checkpointed scenario ''C''"
  by (simp_all add: checkpointed_def scenario_def)

lemma sink_scenario: "sink scenario = ''C''"
  by (simp add: scenario_def)

lemma scenario_crash_after_two:
  "(case controller_run scenario (Some 2) of
      Inl e \<Rightarrow> False
    | Inr st0 \<Rightarrow>
        status st0 = RESUMABLE \<and> map (executions st0) [''A'', ''B'', ''C''] = [1, 1, 0] \<and>
        (case resume_repeatedly scenario [Some 0, None] st0 of
           Inl e \<Rightarrow> False
         | Inr st \<Rightarrow>
             status st = SUCCESSFUL \<and> result st = Some (Inr (Plain 3)) \<and>
             map (executions st) [''A'', ''B'', ''C''] = [1, 1, 1] \<and>
             map (store st) [''A'', ''B'', ''C''] =
               [Some (Plain 1, 0), Some (Plain 2, 2), Some (Plain 3, 0)]))"
  by (simp add: controller_run_def controller_resume_def attempt_def plan_scenario visit_def
      dispatch_scenario checkpointed_scenario sink_scenario new_workflow_def)

subsection \<open>Resuming after a crash\<close>

text \<open>
  Claim C1.  For every acyclic DAG, whatever the crash of the first run and whatever
  the crashes of the calls of \<open>resume\<close> that follow, a last call of \<open>resume\<close> that is not
  interrupted leaves the workflow with the status and the final output (or the error)
  of a single run without a crash, which is \<open>SUCCESSFUL\<close> or \<open>FAILED\<close>.  At the end,
  and after every call of \<open>resume\<close> on the way, every task whose output is in the
  checkpoint store has been executed exactly once over all the attempts.
\<close>

theorem resume_after_crash:
  assumes "acyclic_dag g"
  shows "\<exists>st0 st u.
           controller_run g crash = Inr st0 \<and>
           resume_repeatedly g (crashes @ [None]) st0 = Inr st \<and>
           controller_run g None = Inr u \<and>
           status st = status u \<and> result st = result u \<and>
           (status u = SUCCESSFUL \<or> status u = FAILED) \<and>
           (\<forall>n. store st n \<noteq> None \<longrightarrow> executions st n = 1) \<and>
           (\<forall>k. \<exists>sk. resume_repeatedly g (take k crashes) st0 = Inr sk \<and>
                  (\<forall>n. store sk n \<noteq> None \<longrightarrow> executions sk n = 1))"
proof -
  from acyclic_dag_plan [OF assms] obtain order where
    p: "plan g = Inr order" "distinct order" by blast
  obtain e V where r: "reference g order Map.empty = (e, V)"
    by (cases "reference g order Map.empty")
  note c = consistent_new [of V g]
  from attempt_settles [OF p r c, of crash] obtain st0 where
    s0: "controller_run g crash = Inr st0" "settled e V g st0"
    by (auto simp add: controller_run_def)
  from attempt_settles [OF p r c, of None] obtain u where
    u: "controller_run g None = Inr u" "settled e V g u" "status u \<noteq> RESUMABLE"
    by (auto simp add: controller_run_def)
  from resume_repeatedly_settles [OF p r s0(2), of "crashes @ [None]"] obtain st where
    s: "resume_repeatedly g (crashes @ [None]) st0 = Inr st" "settled e V g st"
    "status st \<noteq> RESUMABLE" by auto
  have "\<exists>sk. resume_repeatedly g (take k crashes) st0 = Inr sk \<and>
          (\<forall>n. store sk n \<noteq> None \<longrightarrow> executions sk n = 1)" for k
    using resume_repeatedly_settles [OF p r s0(2), of "take k crashes"] settled_once
    by blast
  moreover have "status u = SUCCESSFUL \<or> status u = FAILED"
    using u(2,3) by (auto simp add: settled_def)
  ultimately show ?thesis
    using s0 u s settled_final [OF s(2) u(2) s(3) u(3)] settled_once [OF s(2)]
    by blast
qed

theorem resume_after_crash_witness:
  "acyclic_dag scenario \<and>
   (\<exists>st0 st u.
      controller_run scenario (Some 2) = Inr st0 \<and>
      resume_repeatedly scenario ([Some 0] @ [None]) st0 = Inr st \<and>
      controller_run scenario None = Inr u \<and>
      status st = status u \<and> result st = result u \<and>
      (status u = SUCCESSFUL \<or> status u = FAILED) \<and>
      (\<forall>n. store st n \<noteq> None \<longrightarrow> executions st n = 1) \<and>
      (\<forall>k. \<exists>sk. resume_repeatedly scenario (take k [Some 0]) st0 = Inr sk \<and>
             (\<forall>n. store sk n \<noteq> None \<longrightarrow> executions sk n = 1))) \<and>
   (case controller_run scenario (Some 2) of
      Inl e \<Rightarrow> False
    | Inr st0 \<Rightarrow>
        status st0 = RESUMABLE \<and> map (executions st0) [''A'', ''B'', ''C''] = [1, 1, 0] \<and>
        (case resume_repeatedly scenario [Some 0, None] st0 of
           Inl e \<Rightarrow> False
         | Inr st \<Rightarrow>
             status st = SUCCESSFUL \<and> result st = Some (Inr (Plain 3)) \<and>
             map (executions st) [''A'', ''B'', ''C''] = [1, 1, 1] \<and>
             map (store st) [''A'', ''B'', ''C''] =
               [Some (Plain 1, 0), Some (Plain 2, 2), Some (Plain 3, 0)]))"
  using resume_after_crash [OF acyclic_dag_scenario, of "Some 2" "[Some 0]"]
    acyclic_dag_scenario scenario_crash_after_two
  by blast

end
